theory Spec2Isabelle
  imports Main "HOL-Library.Sublist" "HOL-Library.AList" "HOL-Library.Multiset"
begin

section \<open>Values shared by the packages\<close>

text \<open>
  Handles of the wrapped driver. A \<open>*pg.Tx\<close> is a \<open>txid option\<close>, the nil pointer
  being \<open>None\<close>; a \<open>*pg.DB\<close> is a \<open>connid\<close>.
\<close>

type_synonym txid = nat
type_synonym connid = nat

text \<open>A call either returns or panics (nil dereference, index out of range).\<close>

datatype 'a outcome = Returns 'a | Panics string

section \<open>Package database: contexts\<close>

text \<open>
  A \<open>context.Context\<close> as far as this code reads it: the chain of values built by
  \<open>context.WithValue\<close>. \<open>TxKey\<close> and \<open>LoggerKey\<close> are the two key variables of
  package database; \<open>ctx.Value\<close> finds the innermost value stored under an equal key.
\<close>

datatype ctxkey = TxKey | LoggerKey | UserKey string

datatype ctxval = TxPtr "txid option" | OtherVal string

datatype "context" = Background | WithValue "context" ctxkey ctxval

fun Value :: "context \<Rightarrow> ctxkey \<Rightarrow> ctxval option" where
  "Value Background k = None"
| "Value (WithValue parent k' v) k = (if k = k' then Some v else Value parent k)"

text \<open>
  \<open>tx, ok := ctx.Value(&TxKey).(*pg.Tx); if !ok { return nil }; return tx\<close>: the type
  assertion fails on a missing value and on a value of another type.
\<close>

definition getTxFromContext :: "context \<Rightarrow> txid option" where
  "getTxFromContext c =
     (case Value c TxKey of
        None \<Rightarrow> None
      | Some (OtherVal x) \<Rightarrow> None
      | Some (TxPtr t) \<Rightarrow> t)"

text \<open>\<open>newTxContext\<close> of package dao: \<open>context.WithValue(ctx, &db.TxKey, tx)\<close>.\<close>

definition newTxContext :: "context \<Rightarrow> txid option \<Rightarrow> context" where
  "newTxContext c t = WithValue c TxKey (TxPtr t)"

section \<open>Package database: the wrapped driver\<close>

text \<open>
  Records handed to the ORM. A struct is the list of its Go field names with what
  \<open>fmt.Sprint\<close> prints for each field. A slice element is a struct value or a pointer
  to one, and a pointer may be nil. An argument \<open>recs\<close> is a slice, a pointer to a
  struct, a pointer to a slice, or a struct value.
\<close>

type_synonym struct = "(string \<times> string) list"

datatype elem = EStruct struct | EPtr "struct option"

datatype recs = RSlice "elem list" | RPtr "struct option" | RPtrSlice "elem list" | RStruct struct

text \<open>
  Arguments of type \<open>interface{}\<close>: queries, parameters, models. \<open>VAppender\<close> is an
  \<open>orm.QueryAppender\<close>, with the bytes its \<open>AppendQuery\<close> yields, or \<open>None\<close> when it fails.
\<close>

datatype gvalue =
    VNil
  | VStr string
  | VInt int
  | VTime nat
  | VAppender "string option"
  | VModel recs

text \<open>
  Go errors. \<open>Raw\<close> is an error value of the driver, of package context or of
  \<open>errors.New\<close>, named by its message; \<open>Errorf\<close> is \<open>fmt.Errorf\<close> with its format and
  arguments; \<open>App\<close> is an error of package \<open>errors\<close> of this repository
  (\<open>NewInternalError\<close>, \<open>NewBadRequestError\<close>, ...) around the error it was built from.
  A Go \<open>error\<close> return value is an \<open>err option\<close>, nil being \<open>None\<close>.
\<close>

datatype kind = NotFound | BadRequest | Internal

datatype err = Raw string | Errorf string "gvalue list" | App kind err

definition NewInternalError :: "err \<Rightarrow> err" where
  "NewInternalError e = App Internal e"

definition NewBadRequestError :: "err \<Rightarrow> err" where
  "NewBadRequestError e = App BadRequest e"

text \<open>
  An option of package opt. The package is not among the sources; this code only hands
  the options to the ORM, through \<open>opt.Apply\<close> or \<open>opt.ApplyFilter\<close>.
\<close>

datatype FnOpt = FnOpt string

datatype applied = Apply "FnOpt list" | ApplyFilter "FnOpt list"

text \<open>
  An \<open>orm.Query\<close> under construction: what the builder methods called by this code have
  recorded in it.
\<close>

record query =
  q_model :: "gvalue list"
  q_ctx :: "context option"
  q_apply :: "applied list"
  q_columns :: "string list"
  q_wherePK :: bool
  q_set :: "(string \<times> gvalue list) list"
  q_onConflict :: "string option"
  q_returning :: "string list"

definition NewQuery :: "gvalue list \<Rightarrow> query" where
  "NewQuery ms = \<lparr> q_model = ms, q_ctx = None, q_apply = [], q_columns = [],
                   q_wherePK = False, q_set = [], q_onConflict = None, q_returning = [] \<rparr>"

text \<open>The receiver of a driver call: the pooled connection or a transaction.\<close>

datatype target = OnConn connid | OnTx txid

text \<open>The driver methods this code calls, with their arguments.\<close>

datatype request =
    Begin
  | CommitTx
  | RollbackTx
  | OrmFirst query
  | OrmSelect query
  | OrmSelectAndCount query
  | OrmCount query
  | OrmInsert query
  | OrmUpdate query
  | OrmDelete query
  | OrmForceDelete query
  | DrvExec gvalue "gvalue list"
  | DrvQuery gvalue gvalue "gvalue list"
  | DrvCopyFrom nat gvalue "gvalue list"
  | DrvCopyTo nat gvalue "gvalue list"
  | DrvFormatQuery string string "gvalue list"
  | DrvFormatter
  | DrvContext
  | DrvModelContext "context" "gvalue list"
  | DrvExecContext "context" gvalue "gvalue list"
  | DrvExecOneContext "context" gvalue "gvalue list"
  | DrvQueryContext "context" gvalue gvalue "gvalue list"
  | DrvQueryOneContext "context" gvalue gvalue "gvalue list"

text \<open>An \<open>orm.Result\<close>.\<close>

record ormResult =
  rowsAffected :: int
  rowsReturned :: int

text \<open>
  What the driver answers, one slot for each Go return type; a method reads the slots of
  its signature. \<open>r_tx\<close> is the transaction of a successful \<open>Begin\<close>.
\<close>

record reply =
  r_err :: "err option"
  r_res :: "ormResult option"
  r_tx :: txid
  r_count :: int
  r_bytes :: string
  r_fmt :: nat
  r_ctx :: "context"
  r_query :: nat

type_synonym event = "target \<times> request"

text \<open>
  The driver is outside this repository: it is a parameter, a function from the calls made
  so far and the present call to the answer.
\<close>

type_synonym driver = "event list \<Rightarrow> target \<Rightarrow> request \<Rightarrow> reply"

text \<open>
  \<open>wrappedProcessor func(ctx, processor func() (orm.Result, error), query string, model)\<close>.
\<close>

type_synonym processor = "event list \<Rightarrow> (ormResult option \<times> err option) \<times> event list"

type_synonym hook = "context \<Rightarrow> processor \<Rightarrow> string \<Rightarrow> gvalue \<Rightarrow> processor"

record dbWrapper =
  ctx :: "context option"
  conn :: connid
  tx :: "txid option"
  wrappedProcessor :: "hook option"

text \<open>
  The state the operations run in: the one client (a \<open>*dbWrapper\<close> shared by all its
  users), the driver calls made so far, and what \<open>ctx.Err()\<close> reports for the request
  context and the contexts derived from it: nil until the context is cancelled, which
  may happen while a callback runs.
\<close>

record world =
  client :: dbWrapper
  calls :: "event list"
  ctxErr :: "err option"

definition issue :: "driver \<Rightarrow> target \<Rightarrow> request \<Rightarrow> event list \<Rightarrow> reply \<times> event list" where
  "issue drv tgt rq cs = (drv cs tgt rq, cs @ [(tgt, rq)])"

definition call :: "driver \<Rightarrow> target \<Rightarrow> request \<Rightarrow> world \<Rightarrow> reply \<times> world" where
  "call drv tgt rq s =
     (fst (issue drv tgt rq (calls s)), s\<lparr> calls := snd (issue drv tgt rq (calls s)) \<rparr>)"

text \<open>Reading the slots of a method's signature out of the answer.\<close>

definition ret :: "(reply \<Rightarrow> 'a) \<Rightarrow> reply \<times> 'w \<Rightarrow> 'a \<times> 'w" where
  "ret f p = (f (fst p), snd p)"

definition res_err :: "reply \<Rightarrow> ormResult option \<times> err option" where
  "res_err rep = (r_res rep, r_err rep)"

section \<open>Package database: the client\<close>

definition NewDbClient :: "connid \<Rightarrow> (dbWrapper \<Rightarrow> dbWrapper) list \<Rightarrow> dbWrapper" where
  "NewDbClient c options =
     fold (\<lambda>option dbc. option dbc) options \<lparr> ctx = None, conn = c, tx = None, wrappedProcessor = None \<rparr>"

definition Tx :: "world \<Rightarrow> txid option" where
  "Tx s = tx (client s)"

text \<open>\<open>StartTx\<close>: \<open>w.conn.Begin()\<close>; on success the new transaction is stored in \<open>w.tx\<close>.\<close>

definition StartTx :: "driver \<Rightarrow> world \<Rightarrow> (txid option \<times> err option) \<times> world" where
  "StartTx drv s =
     (let (rep, s1) = call drv (OnConn (conn (client s))) Begin s
      in case r_err rep of
           Some e \<Rightarrow> ((None, Some e), s1)
         | None \<Rightarrow> ((Some (r_tx rep), None),
                      s1\<lparr> client := (client s1)\<lparr> tx := Some (r_tx rep) \<rparr> \<rparr>))"

text \<open>
  \<open>Commit\<close>: \<open>err := w.tx.Commit(); w.tx = nil; return err\<close>. On a nil \<open>w.tx\<close> the driver's
  method dereferences nil and panics before the assignment. \<open>Rollback\<close> likewise.
\<close>

definition Commit :: "driver \<Rightarrow> world \<Rightarrow> err option outcome \<times> world" where
  "Commit drv s =
     (case tx (client s) of
        None \<Rightarrow> (Panics ''nil pointer dereference'', s)
      | Some t \<Rightarrow>
          (let (rep, s1) = call drv (OnTx t) CommitTx s
           in (Returns (r_err rep), s1\<lparr> client := (client s1)\<lparr> tx := None \<rparr> \<rparr>)))"

definition Rollback :: "driver \<Rightarrow> world \<Rightarrow> err option outcome \<times> world" where
  "Rollback drv s =
     (case tx (client s) of
        None \<Rightarrow> (Panics ''nil pointer dereference'', s)
      | Some t \<Rightarrow>
          (let (rep, s1) = call drv (OnTx t) RollbackTx s
           in (Returns (r_err rep), s1\<lparr> client := (client s1)\<lparr> tx := None \<rparr> \<rparr>)))"

text \<open>\<open>WithContext\<close>: \<open>w.ctx = ctx; w.tx = getTxFromContext(ctx); return w\<close>.\<close>

definition WithContext :: "context \<Rightarrow> world \<Rightarrow> world" where
  "WithContext c s = s\<lparr> client := (client s)\<lparr> ctx := Some c, tx := getTxFromContext c \<rparr> \<rparr>"


definition Formatter :: "driver \<Rightarrow> world \<Rightarrow> nat \<times> world" where
  "Formatter drv s =
     (case tx (client s) of
        Some t \<Rightarrow> ret r_fmt (call drv (OnTx t) DrvFormatter s)
      | None \<Rightarrow> ret r_fmt (call drv (OnConn (conn (client s))) DrvFormatter s))"

text \<open>\<open>Model\<close>: \<open>orm.NewQuery(w, model...).Context(w.ctx)\<close>, a query bound to the client.\<close>

definition Model :: "gvalue list \<Rightarrow> world \<Rightarrow> query" where
  "Model ms s = (NewQuery ms)\<lparr> q_ctx := ctx (client s) \<rparr>"


definition Insert :: "driver \<Rightarrow> gvalue list \<Rightarrow> world \<Rightarrow> err option \<times> world" where
  "Insert drv model s =
     (case tx (client s) of
        Some t \<Rightarrow> ret r_err (call drv (OnTx t) (OrmInsert (NewQuery model)) s)
      | None \<Rightarrow> ret r_err (call drv (OnConn (conn (client s))) (OrmInsert (NewQuery model)) s))"


definition Delete :: "driver \<Rightarrow> gvalue \<Rightarrow> world \<Rightarrow> err option \<times> world" where
  "Delete drv model s =
     (case tx (client s) of
        Some t \<Rightarrow> ret r_err (call drv (OnTx t)
                    (OrmDelete ((NewQuery [model])\<lparr> q_wherePK := True \<rparr>)) s)
      | None \<Rightarrow> ret r_err (call drv (OnConn (conn (client s)))
                    (OrmDelete ((NewQuery [model])\<lparr> q_wherePK := True \<rparr>)) s))"


text \<open>
  \<open>queryString\<close>: a \<open>QueryAppender\<close> is rendered with \<open>w.Formatter()\<close> and gives the empty
  string when rendering fails; a string is itself; anything else is the empty string.
\<close>

definition queryString :: "driver \<Rightarrow> gvalue \<Rightarrow> world \<Rightarrow> string \<times> world" where
  "queryString drv qry s =
     (case qry of
        VAppender b \<Rightarrow>
          (case b of
             Some bytes \<Rightarrow> (bytes, snd (Formatter drv s))
           | None \<Rightarrow> ([], snd (Formatter drv s)))
      | VStr typed \<Rightarrow> (typed, s)
      | _ \<Rightarrow> ([], s))"

text \<open>
  \<open>Exec\<close> and \<open>Query\<close> build the closure \<open>processor\<close>, which makes the driver call on the
  transaction or the connection. Without a \<open>wrappedProcessor\<close> the closure is called;
  with one, the hook receives \<open>w.conn.Context()\<close>, the closure, the query string and the
  model, and its result is returned.
\<close>

definition Exec ::
  "driver \<Rightarrow> gvalue \<Rightarrow> gvalue list \<Rightarrow> world \<Rightarrow> (ormResult option \<times> err option) \<times> world" where
  "Exec drv qry params s =
     (let processor = (\<lambda>cs.
            case tx (client s) of
              Some t \<Rightarrow> ret res_err (issue drv (OnTx t) (DrvExec qry params) cs)
            | None \<Rightarrow> ret res_err (issue drv (OnConn (conn (client s))) (DrvExec qry params) cs))
      in case wrappedProcessor (client s) of
           None \<Rightarrow> (fst (processor (calls s)), s\<lparr> calls := snd (processor (calls s)) \<rparr>)
         | Some wp \<Rightarrow>
             (let c = fst (call drv (OnConn (conn (client s))) DrvContext s);
                  s1 = snd (call drv (OnConn (conn (client s))) DrvContext s);
                  str = fst (queryString drv qry s1);
                  s2 = snd (queryString drv qry s1)
              in (fst (wp (r_ctx c) processor str VNil (calls s2)),
                  s2\<lparr> calls := snd (wp (r_ctx c) processor str VNil (calls s2)) \<rparr>)))"

definition Query ::
  "driver \<Rightarrow> gvalue \<Rightarrow> gvalue \<Rightarrow> gvalue list \<Rightarrow> world
     \<Rightarrow> (ormResult option \<times> err option) \<times> world" where
  "Query drv model qry params s =
     (let processor = (\<lambda>cs.
            case tx (client s) of
              Some t \<Rightarrow> ret res_err (issue drv (OnTx t) (DrvQuery model qry params) cs)
            | None \<Rightarrow>
                ret res_err (issue drv (OnConn (conn (client s))) (DrvQuery model qry params) cs))
      in case wrappedProcessor (client s) of
           None \<Rightarrow> (fst (processor (calls s)), s\<lparr> calls := snd (processor (calls s)) \<rparr>)
         | Some wp \<Rightarrow>
             (let c = fst (call drv (OnConn (conn (client s))) DrvContext s);
                  s1 = snd (call drv (OnConn (conn (client s))) DrvContext s);
                  str = fst (queryString drv qry s1);
                  s2 = snd (queryString drv qry s1)
              in (fst (wp (r_ctx c) processor str model (calls s2)),
                  s2\<lparr> calls := snd (wp (r_ctx c) processor str model (calls s2)) \<rparr>)))"

text \<open>\<open>pg.ErrNoRows\<close> and \<open>pg.ErrMultiRows\<close>, two distinct error values of the driver.\<close>

definition ErrNoRows :: err where
  "ErrNoRows = Raw ''pg: no rows in result set''"

definition ErrMultiRows :: err where
  "ErrMultiRows = Raw ''pg: multiple rows in result set''"

definition assertOneRow :: "int \<Rightarrow> err option" where
  "assertOneRow affected =
     (if affected = 0 then Some ErrNoRows
      else if affected > 1 then Some ErrMultiRows
      else None)"

text \<open>
  \<open>ExecOne\<close> and \<open>QueryOne\<close>: the error of \<open>Exec\<close>/\<open>Query\<close> is returned as it is;
  otherwise \<open>res.RowsAffected()\<close> is checked (a nil result with a nil error, which only a
  hook can hand back, panics there).
\<close>

definition ExecOne ::
  "driver \<Rightarrow> gvalue \<Rightarrow> gvalue list \<Rightarrow> world
     \<Rightarrow> (ormResult option \<times> err option) outcome \<times> world" where
  "ExecOne drv qry params s =
     (let res = fst (fst (Exec drv qry params s));
          err = snd (fst (Exec drv qry params s));
          s1 = snd (Exec drv qry params s)
      in case err of
           Some e \<Rightarrow> (Returns (None, Some e), s1)
         | None \<Rightarrow>
             (case res of
                None \<Rightarrow> (Panics ''nil pointer dereference'', s1)
              | Some r \<Rightarrow>
                  (case assertOneRow (rowsAffected r) of
                     Some e \<Rightarrow> (Returns (None, Some e), s1)
                   | None \<Rightarrow> (Returns (Some r, None), s1))))"

definition QueryOne ::
  "driver \<Rightarrow> gvalue \<Rightarrow> gvalue \<Rightarrow> gvalue list \<Rightarrow> world
     \<Rightarrow> (ormResult option \<times> err option) outcome \<times> world" where
  "QueryOne drv model qry params s =
     (let res = fst (fst (Query drv model qry params s));
          err = snd (fst (Query drv model qry params s));
          s1 = snd (Query drv model qry params s)
      in case err of
           Some e \<Rightarrow> (Returns (None, Some e), s1)
         | None \<Rightarrow>
             (case res of
                None \<Rightarrow> (Panics ''nil pointer dereference'', s1)
              | Some r \<Rightarrow>
                  (case assertOneRow (rowsAffected r) of
                     Some e \<Rightarrow> (Returns (None, Some e), s1)
                   | None \<Rightarrow> (Returns (Some r, None), s1))))"









section \<open>Package dao: the DAO struct and its field setters\<close>

text \<open>
  \<open>type DAO struct { db db.Client; updatedField string; deletedField string }\<close>.
  The field \<open>db\<close> is a reference to the shared client.
\<close>

record DAO =
  db :: connid
  updatedField :: string
  deletedField :: string

definition New :: "connid \<Rightarrow> DAO" where
  "New d = \<lparr> db = d, updatedField = ''updated'', deletedField = ''deleted'' \<rparr>"

definition SetUpdatedField :: "string \<Rightarrow> DAO \<Rightarrow> DAO" where
  "SetUpdatedField fieldName r =
     (if fieldName = '''' then r else r\<lparr> updatedField := fieldName \<rparr>)"

definition SetDeletedField :: "string \<Rightarrow> DAO \<Rightarrow> DAO" where
  "SetDeletedField fieldName r =
     (if fieldName = '''' then r else r\<lparr> deletedField := fieldName \<rparr>)"

section \<open>Package dao: operations\<close>

text \<open>
  \<open>pkgerr.Convert\<close> belongs to package \<open>errors\<close> of this repository, which is not among
  the sources: the operations take it as the parameter \<open>conv\<close>. \<open>time.Now()\<close> is the
  parameter \<open>now\<close>.
\<close>

type_synonym converter = "context \<Rightarrow> err \<Rightarrow> err"

text \<open>
  A query made by \<open>Model\<close> is bound to the client: when a final method (\<open>First\<close>,
  \<open>Select\<close>, \<open>Update\<close>, ...) runs it, the ORM goes through the client's
  \<open>QueryContext\<close>/\<open>ExecContext\<close>, which use the transaction when \<open>w.tx != nil\<close> and the
  connection otherwise.
\<close>

definition runQuery :: "driver \<Rightarrow> request \<Rightarrow> world \<Rightarrow> reply \<times> world" where
  "runQuery drv rq s =
     (case tx (client s) of
        Some t \<Rightarrow> call drv (OnTx t) rq s
      | None \<Rightarrow> call drv (OnConn (conn (client s))) rq s)"

text \<open>\<open>if err != nil { return pkgerr.Convert(ctx, err) }; return nil\<close>.\<close>

definition converted :: "converter \<Rightarrow> context \<Rightarrow> err option \<times> world \<Rightarrow> err option \<times> world" where
  "converted conv c p =
     (case fst p of
        Some e \<Rightarrow> (Some (conv c e), snd p)
      | None \<Rightarrow> (None, snd p))"

definition Ping :: "driver \<Rightarrow> context \<Rightarrow> world \<Rightarrow> err option \<times> world" where
  "Ping drv c s =
     (snd (fst (Exec drv (VStr ''SELECT 1'') [] (WithContext c s))),
      snd (Exec drv (VStr ''SELECT 1'') [] (WithContext c s)))"

text \<open>
  \<open>WithTX\<close>. The callback \<open>fn\<close> is Go code that has the shared client in reach (it calls
  the DAO, whose every method starts with \<open>r.db.WithContext\<close>), so it is a function on
  the state. The line written to the log on a failed rollback is not part of the state.
\<close>

definition WithTX ::
  "driver \<Rightarrow> converter \<Rightarrow> context \<Rightarrow> (context \<Rightarrow> world \<Rightarrow> err option \<times> world) \<Rightarrow> world
     \<Rightarrow> err option outcome \<times> world" where
  "WithTX drv conv c fn s =
     (if Tx s \<noteq> None then (Returns (fst (fn c s)), snd (fn c s))
      else
        (let started = StartTx drv (WithContext c s);
             t = fst (fst started);
             s1 = snd started
         in case snd (fst started) of
              Some e \<Rightarrow> (Returns (Some (conv c e)), s1)
            | None \<Rightarrow>
                (let err = fst (fn (newTxContext c t) s1);
                     s2 = snd (fn (newTxContext c t) s1)
                 in if err \<noteq> None \<or> ctxErr s2 \<noteq> None then
                      (case fst (Rollback drv s2) of
                         Panics m \<Rightarrow> (Panics m, snd (Rollback drv s2))
                       | Returns rollbackErr \<Rightarrow>
                           (if ctxErr (snd (Rollback drv s2)) \<noteq> None
                            then (Returns (ctxErr (snd (Rollback drv s2))), snd (Rollback drv s2))
                            else (Returns err, snd (Rollback drv s2))))
                    else
                      (case fst (Commit drv s2) of
                         Panics m \<Rightarrow> (Panics m, snd (Commit drv s2))
                       | Returns commitErr \<Rightarrow>
                           (case commitErr of
                              Some e \<Rightarrow> (Returns (Some (conv c e)), snd (Commit drv s2))
                            | None \<Rightarrow> (Returns None, snd (Commit drv s2)))))))"

definition FindOne ::
  "driver \<Rightarrow> converter \<Rightarrow> context \<Rightarrow> gvalue \<Rightarrow> FnOpt list \<Rightarrow> world \<Rightarrow> err option \<times> world" where
  "FindOne drv conv c receiver opts s =
     (let s1 = WithContext c s
      in converted conv c
           (ret r_err (runQuery drv (OrmFirst ((Model [receiver] s1)\<lparr> q_apply := [Apply opts] \<rparr>)) s1)))"

definition FindList ::
  "driver \<Rightarrow> converter \<Rightarrow> context \<Rightarrow> gvalue \<Rightarrow> FnOpt list \<Rightarrow> world \<Rightarrow> err option \<times> world" where
  "FindList drv conv c receiver opts s =
     (let s1 = WithContext c s
      in converted conv c
           (ret r_err (runQuery drv (OrmSelect ((Model [receiver] s1)\<lparr> q_apply := [Apply opts] \<rparr>)) s1)))"

definition FindListWithTotal ::
  "driver \<Rightarrow> converter \<Rightarrow> context \<Rightarrow> gvalue \<Rightarrow> FnOpt list \<Rightarrow> world
     \<Rightarrow> (int \<times> err option) \<times> world" where
  "FindListWithTotal drv conv c receiver opts s =
     (let s1 = WithContext c s;
          p = runQuery drv (OrmSelectAndCount ((Model [receiver] s1)\<lparr> q_apply := [Apply opts] \<rparr>)) s1
      in case r_err (fst p) of
           Some e \<Rightarrow> ((0, Some (conv c e)), snd p)
         | None \<Rightarrow> ((r_count (fst p), None), snd p))"

definition GetTotal ::
  "driver \<Rightarrow> converter \<Rightarrow> context \<Rightarrow> gvalue \<Rightarrow> FnOpt list \<Rightarrow> world
     \<Rightarrow> (int \<times> err option) \<times> world" where
  "GetTotal drv conv c receiver opts s =
     (let s1 = WithContext c s;
          p = runQuery drv (OrmCount ((Model [receiver] s1)\<lparr> q_apply := [Apply opts] \<rparr>)) s1
      in case r_err (fst p) of
           Some e \<Rightarrow> ((0, Some (conv c e)), snd p)
         | None \<Rightarrow> ((r_count (fst p), None), snd p))"

text \<open>
  \<open>Update\<close> of the DAO. \<open>reflect.ValueOf(rec).Elem().Type()\<close> panics unless \<open>rec\<close> is a
  pointer that is not nil; a pointer to a slice needs no filter, a pointer to a struct
  gets \<open>WherePK\<close>.
\<close>

definition dao_Update ::
  "driver \<Rightarrow> converter \<Rightarrow> DAO \<Rightarrow> context \<Rightarrow> recs \<Rightarrow> string list \<Rightarrow> world
     \<Rightarrow> err option outcome \<times> world" where
  "dao_Update drv conv r c rec columns s =
     (let s1 = WithContext c s;
          q = (Model [VModel rec] s1)\<lparr> q_columns := columns @ [updatedField r] \<rparr>
      in case rec of
           RPtrSlice es \<Rightarrow>
             (Returns (fst (converted conv c (ret r_err (runQuery drv (OrmUpdate q) s1)))),
              snd (converted conv c (ret r_err (runQuery drv (OrmUpdate q) s1))))
         | RPtr p \<Rightarrow>
             (case p of
                None \<Rightarrow> (Panics ''reflect: call of reflect.Value.Type on zero Value'', s1)
              | Some v \<Rightarrow>
                  (Returns (fst (converted conv c
                     (ret r_err (runQuery drv (OrmUpdate (q\<lparr> q_wherePK := True \<rparr>)) s1)))),
                   snd (converted conv c
                     (ret r_err (runQuery drv (OrmUpdate (q\<lparr> q_wherePK := True \<rparr>)) s1)))))
         | RSlice es \<Rightarrow> (Panics ''reflect: call of reflect.Value.Elem on slice Value'', s1)
         | RStruct v \<Rightarrow> (Panics ''reflect: call of reflect.Value.Elem on struct Value'', s1))"

text \<open>
  The loop of \<open>UpdateWhere\<close> over the pairs, two elements at a time: the element at the
  even index must be a string, and \<open>q.Set(column+" = ?", value)\<close> records the pair.
\<close>

fun setPairs :: "gvalue list \<Rightarrow> query \<Rightarrow> (err + query) outcome" where
  "setPairs [] q = Returns (Inr q)"
| "setPairs [x] q =
     (case x of
        VStr column \<Rightarrow> Panics ''index out of range''
      | _ \<Rightarrow> Returns (Inl (NewInternalError
               (Errorf ''UpdateWhere: field must be string, got %T (%v)'' [x, x]))))"
| "setPairs (x # v # rest) q =
     (case x of
        VStr column \<Rightarrow> setPairs rest (q\<lparr> q_set := q_set q @ [(column @ '' = ?'', [v])] \<rparr>)
      | _ \<Rightarrow> Returns (Inl (NewInternalError
               (Errorf ''UpdateWhere: field must be string, got %T (%v)'' [x, x]))))"

definition UpdateWhere ::
  "driver \<Rightarrow> converter \<Rightarrow> nat \<Rightarrow> DAO \<Rightarrow> context \<Rightarrow> gvalue \<Rightarrow> FnOpt list \<Rightarrow> gvalue list \<Rightarrow> world
     \<Rightarrow> err option outcome \<times> world" where
  "UpdateWhere drv conv now r c rec opts setFieldValuePairs s =
     (if odd (length setFieldValuePairs) then
        (Returns (Some (NewInternalError
           (Errorf ''UpdateWhere: setFieldValuePairs must be even, got %d''
              [VInt (int (length setFieldValuePairs))]))), s)
      else
        (let pairs = setFieldValuePairs @ [VStr (updatedField r), VTime now];
             s1 = WithContext c s;
             q = (Model [rec] s1)\<lparr> q_apply := [Apply opts] \<rparr>
         in case setPairs pairs q of
              Panics m \<Rightarrow> (Panics m, s1)
            | Returns (Inl e) \<Rightarrow> (Returns (Some e), s1)
            | Returns (Inr q') \<Rightarrow>
                (Returns (fst (converted conv c (ret r_err (runQuery drv (OrmUpdate q') s1)))),
                 snd (converted conv c (ret r_err (runQuery drv (OrmUpdate q') s1))))))"

definition UpdateWithReturning ::
  "driver \<Rightarrow> converter \<Rightarrow> DAO \<Rightarrow> context \<Rightarrow> gvalue \<Rightarrow> string list \<Rightarrow> world
     \<Rightarrow> err option \<times> world" where
  "UpdateWithReturning drv conv r c rec columns s =
     (let s1 = WithContext c s
      in converted conv c
           (ret r_err (runQuery drv
              (OrmUpdate ((Model [rec] s1)\<lparr> q_columns := columns @ [updatedField r],
                                          q_wherePK := True, q_returning := [''*''] \<rparr>)) s1)))"

definition dao_Insert ::
  "driver \<Rightarrow> converter \<Rightarrow> context \<Rightarrow> gvalue list \<Rightarrow> world \<Rightarrow> err option \<times> world" where
  "dao_Insert drv conv c rec s = converted conv c (Insert drv rec (WithContext c s))"

text \<open>
  \<open>SoftDelete\<close>: \<open>rec.SetDeleted(time.Now())\<close> is a method of the caller's type, the
  parameter \<open>setDeleted\<close>; the error of \<open>r.Update\<close>, already converted there, is converted
  once more.
\<close>

definition SoftDelete ::
  "driver \<Rightarrow> converter \<Rightarrow> nat \<Rightarrow> (nat \<Rightarrow> recs \<Rightarrow> recs) \<Rightarrow> DAO \<Rightarrow> context \<Rightarrow> recs \<Rightarrow> world
     \<Rightarrow> err option outcome \<times> world" where
  "SoftDelete drv conv now setDeleted r c rec s =
     (case fst (dao_Update drv conv r c (setDeleted now rec) [deletedField r] s) of
        Panics m \<Rightarrow> (Panics m, snd (dao_Update drv conv r c (setDeleted now rec) [deletedField r] s))
      | Returns err \<Rightarrow>
          (Returns (fst (converted conv c
             (err, snd (dao_Update drv conv r c (setDeleted now rec) [deletedField r] s)))),
           snd (dao_Update drv conv r c (setDeleted now rec) [deletedField r] s)))"

definition HardDelete ::
  "driver \<Rightarrow> converter \<Rightarrow> context \<Rightarrow> gvalue \<Rightarrow> world \<Rightarrow> err option \<times> world" where
  "HardDelete drv conv c rec s = converted conv c (Delete drv rec (WithContext c s))"

definition HardDeleteWhere ::
  "driver \<Rightarrow> converter \<Rightarrow> context \<Rightarrow> gvalue \<Rightarrow> FnOpt list \<Rightarrow> world \<Rightarrow> err option \<times> world" where
  "HardDeleteWhere drv conv c rec opts s =
     (let s1 = WithContext c s
      in converted conv c
           (ret r_err (runQuery drv
              (OrmDelete ((Model [rec] s1)\<lparr> q_apply := [ApplyFilter opts] \<rparr>)) s1)))"

section \<open>Package dao: Upsert\<close>

text \<open>
  \<open>getType\<close> finds the type of the records: of the first element of a slice (an empty
  slice has none: \<open>s.Index(0)\<close> panics), of what a pointer points to (a nil pointer has
  no element to take the interface of), or of a struct value.
\<close>

datatype gotype = StructType | SliceType

definition getType :: "recs \<Rightarrow> gotype outcome" where
  "getType models =
     (case models of
        RSlice es \<Rightarrow>
          (case es of
             [] \<Rightarrow> Panics ''reflect: slice index out of range''
           | e # rest \<Rightarrow>
               (case e of
                  EPtr p \<Rightarrow>
                    (case p of
                       None \<Rightarrow> Panics ''reflect: call of reflect.Value.Interface on zero Value''
                     | Some v \<Rightarrow> Returns StructType)
                | EStruct v \<Rightarrow> Returns StructType))
      | RPtr p \<Rightarrow>
          (case p of
             None \<Rightarrow> Panics ''reflect: call of reflect.Value.Interface on zero Value''
           | Some v \<Rightarrow> Returns StructType)
      | RPtrSlice es \<Rightarrow> Returns SliceType
      | RStruct v \<Rightarrow> Returns StructType)"

text \<open>
  \<open>orm.GetTable\<close>, of the ORM: the table of a struct type, here the parameter \<open>tbl\<close> with
  its \<open>FieldsMap\<close> from SQL names to Go field names (\<open>None\<close> for a nil table), and a panic
  on a type that is no struct.
\<close>

type_synonym table = "(string \<times> string) list"

definition GetTable :: "table option \<Rightarrow> gotype \<Rightarrow> table option outcome" where
  "GetTable tbl ty =
     (case ty of
        StructType \<Rightarrow> Returns tbl
      | SliceType \<Rightarrow> Panics ''got slice, wanted struct'')"

text \<open>
  \<open>goNames = append(goNames, t.FieldsMap[key].GoName)\<close> for each key: a key the table
  does not have gives a nil field, whose \<open>GoName\<close> panics.
\<close>

fun goNamesOf :: "table \<Rightarrow> string list \<Rightarrow> string list outcome" where
  "goNamesOf t [] = Returns []"
| "goNamesOf t (key # keys) =
     (case map_of t key of
        None \<Rightarrow> Panics ''nil pointer dereference''
      | Some goName \<Rightarrow>
          (case goNamesOf t keys of
             Panics m \<Rightarrow> Panics m
           | Returns names \<Rightarrow> Returns (goName # names)))"

text \<open>\<open>strings.Join\<close>.\<close>

fun Join :: "string list \<Rightarrow> string \<Rightarrow> string" where
  "Join [] sep = []"
| "Join [a] sep = a"
| "Join (a # b # rest) sep = a @ sep @ Join (b # rest) sep"

text \<open>
  \<open>fmt.Sprint(reflect.ValueOf(model).Elem().FieldByName(key))\<close>: the field as printed, and
  the text of an invalid value for a name the struct does not have.
\<close>

definition SprintField :: "struct \<Rightarrow> string \<Rightarrow> string" where
  "SprintField v key =
     (case map_of v key of
        Some printed \<Rightarrow> printed
      | None \<Rightarrow> ''<invalid reflect.Value>'')"

text \<open>
  The key function that \<open>Upsert\<close> hands to \<open>GetUniqueModels\<close>. The model is a pointer; on a
  nil pointer \<open>FieldByName\<close> panics, once the loop over \<open>goNames\<close> gets to call it.
\<close>

fun keyValues :: "struct option \<Rightarrow> string list \<Rightarrow> string list outcome" where
  "keyValues model [] = Returns []"
| "keyValues model (key # rest) =
     (case model of
        None \<Rightarrow> Panics ''reflect: call of reflect.Value.FieldByName on zero Value''
      | Some v \<Rightarrow>
          (case keyValues model rest of
             Panics m \<Rightarrow> Panics m
           | Returns values \<Rightarrow> Returns (SprintField v key # values)))"

definition modelKey :: "string list \<Rightarrow> struct option \<Rightarrow> string outcome" where
  "modelKey goNames model =
     (case keyValues model goNames of
        Panics m \<Rightarrow> Panics m
      | Returns values \<Rightarrow> Returns (Join values ''_''))"

text \<open>
  \<open>GetUniqueModels\<close>. The loop stores a pointer to each element in the Go map \<open>rows\<close>
  under its key, a later element replacing an earlier one with the same key. The map is
  an association list with one entry for each key.
\<close>

fun fillRows ::
  "(struct option \<Rightarrow> string outcome) \<Rightarrow> elem list \<Rightarrow> (string \<times> struct option) list
     \<Rightarrow> (string \<times> struct option) list outcome" where
  "fillRows f [] rows = Returns rows"
| "fillRows f (e # es) rows =
     (let model = (case e of EPtr p \<Rightarrow> p | EStruct v \<Rightarrow> Some v)
      in case f model of
           Panics m \<Rightarrow> Panics m
         | Returns k \<Rightarrow> fillRows f es (AList.update k model rows))"

text \<open>
  \<open>for i := range rows { unique = append(unique, rows[i]) }\<close>: Go visits the keys of a
  map in an order of the runtime's choosing, the parameter \<open>order\<close>, which rearranges the
  entries.
\<close>

type_synonym rangeOrder = "(string \<times> struct option) list \<Rightarrow> (string \<times> struct option) list"

definition GetUniqueModels ::
  "rangeOrder \<Rightarrow> recs \<Rightarrow> (struct option \<Rightarrow> string outcome) \<Rightarrow> struct option list outcome" where
  "GetUniqueModels order models f =
     (case (case models of
              RSlice es \<Rightarrow> fillRows f es []
            | _ \<Rightarrow> Returns []) of
        Panics m \<Rightarrow> Panics m
      | Returns rows \<Rightarrow> Returns (map snd (order rows)))"

text \<open>
  \<open>Upsert\<close>. The models are pointers to structs; \<open>Model(&models)\<close> hands the ORM a pointer
  to their slice, and \<open>q.Set(column + " = EXCLUDED." + column)\<close> is recorded for each column. A pointer to a slice never gets past \<open>orm.GetTable\<close>, which has panicked
  on its type before the kind of \<open>recs\<close> is looked at.
\<close>

definition setExcluded :: "string \<Rightarrow> query \<Rightarrow> query" where
  "setExcluded column q = q\<lparr> q_set := q_set q @ [(column @ '' = EXCLUDED.'' @ column, [])] \<rparr>"

definition insertModels ::
  "driver \<Rightarrow> context \<Rightarrow> string list \<Rightarrow> string list \<Rightarrow> struct option list \<Rightarrow> world
     \<Rightarrow> err option outcome \<times> world" where
  "insertModels drv c keys columns models s =
     (if length models = 0 then
        (Returns (Some (NewBadRequestError (Raw ''models cannot be empty''))), s)
      else
        (let s1 = WithContext c s;
             q = (Model [VModel (RPtrSlice (map EPtr models))] s1)
                   \<lparr> q_onConflict := Some (''('' @ Join keys '','' @ '') DO UPDATE'') \<rparr>;
             q' = fold setExcluded columns q
         in (Returns (r_err (fst (runQuery drv (OrmInsert q') s1))),
             snd (runQuery drv (OrmInsert q') s1))))"

definition Upsert ::
  "driver \<Rightarrow> table option \<Rightarrow> rangeOrder \<Rightarrow> context \<Rightarrow> recs \<Rightarrow> string list \<Rightarrow> string list \<Rightarrow> world
     \<Rightarrow> err option outcome \<times> world" where
  "Upsert drv tbl order c recs keys columns s =
     (if length keys = 0 then
        (Returns (Some (NewBadRequestError (Raw ''keys cannot be empty''))), s)
      else
        (case getType recs of
           Panics m \<Rightarrow> (Panics m, s)
         | Returns ty \<Rightarrow>
             (case GetTable tbl ty of
                Panics m \<Rightarrow> (Panics m, s)
              | Returns t \<Rightarrow>
                  (case (case t of None \<Rightarrow> Returns [] | Some fm \<Rightarrow> goNamesOf fm keys) of
                     Panics m \<Rightarrow> (Panics m, s)
                   | Returns goNames \<Rightarrow>
                       (case recs of
                          RSlice es \<Rightarrow>
                            (case GetUniqueModels order recs (modelKey goNames) of
                               Panics m \<Rightarrow> (Panics m, s)
                             | Returns models \<Rightarrow> insertModels drv c keys columns models s)
                        | RPtr p \<Rightarrow> insertModels drv c keys columns [p] s
                        | RPtrSlice es \<Rightarrow> (Panics ''got slice, wanted struct'', s)
                        | RStruct v \<Rightarrow>
                            (Returns (Some (NewBadRequestError
                               (Raw ''recs must be slice or pointer to struct''))), s))))))"

section \<open>Package migrate\<close>

text \<open>\<open>strings.TrimPrefix\<close>: the string without the prefix when it starts with it.\<close>

definition TrimPrefix :: "string \<Rightarrow> string \<Rightarrow> string" where
  "TrimPrefix str pre = (if prefix pre str then drop (length pre) str else str)"

definition driverName :: string where
  "driverName = ''postgres''"

record Migrator =
  path :: string
  dsn :: string
  cleanScheme :: "string list"
  logger :: nat

type_synonym OptionFn = "Migrator \<Rightarrow> Migrator"

definition WithClean :: "string list \<Rightarrow> OptionFn" where
  "WithClean scheme m = m\<lparr> cleanScheme := scheme \<rparr>"

definition WithLogger :: "nat \<Rightarrow> OptionFn" where
  "WithLogger l m = m\<lparr> logger := l \<rparr>"

text \<open>\<open>NewMigrator\<close>; \<open>zap.NewNop()\<close> is the logger 0.\<close>

definition NewMigrator :: "string \<Rightarrow> string \<Rightarrow> OptionFn list \<Rightarrow> Migrator" where
  "NewMigrator p d options =
     fold (\<lambda>opt m. opt m) options
       \<lparr> path = ''file://'' @ TrimPrefix (TrimPrefix p ''.'') ''/'',
         dsn = d, cleanScheme = [], logger = 0 \<rparr>"

text \<open>
  The calls \<open>Run\<close> makes to \<open>database/sql\<close> and to the migration engine, and their
  answers. The engine is a parameter, as the driver is. Log lines are left out.
\<close>

datatype mcall =
    SqlOpen string string
  | DbClose
  | DbQuery string
  | PostgresWithInstance
  | NewWithDatabaseInstance string string
  | Version
  | Up

record manswer =
  m_err :: "err option"
  m_version :: nat
  m_dirty :: bool

type_synonym engine = "mcall list \<Rightarrow> mcall \<Rightarrow> manswer"

definition ask :: "engine \<Rightarrow> mcall \<Rightarrow> mcall list \<Rightarrow> manswer \<times> mcall list" where
  "ask eng c cs = (eng cs c, cs @ [c])"

definition ErrNoChange :: err where
  "ErrNoChange = Raw ''no change''"

text \<open>\<open>cleanDatabase\<close>: drop the schema and create it again.\<close>

definition cleanDatabase :: "engine \<Rightarrow> string \<Rightarrow> mcall list \<Rightarrow> err option \<times> mcall list" where
  "cleanDatabase eng schema cs =
     (let a1 = ask eng (DbQuery (''DROP SCHEMA '' @ schema @ '' CASCADE'')) cs
      in case m_err (fst a1) of
           Some e \<Rightarrow> (Some e, snd a1)
         | None \<Rightarrow>
             (let a2 = ask eng (DbQuery (''CREATE SCHEMA '' @ schema)) (snd a1)
              in case m_err (fst a2) of
                   Some e \<Rightarrow> (Some e, snd a2)
                 | None \<Rightarrow> (None, snd a2)))"

fun cleanAll :: "engine \<Rightarrow> string list \<Rightarrow> mcall list \<Rightarrow> err option \<times> mcall list" where
  "cleanAll eng [] cs = (None, cs)"
| "cleanAll eng (scheme # rest) cs =
     (case fst (cleanDatabase eng scheme cs) of
        Some e \<Rightarrow> (Some e, snd (cleanDatabase eng scheme cs))
      | None \<Rightarrow> cleanAll eng rest (snd (cleanDatabase eng scheme cs)))"

text \<open>
  What \<open>Run\<close> does once the schemas are cleaned. Both checks of the version test
  \<open>beforeVersion\<close>, as the source does.
\<close>

definition migrateUp :: "engine \<Rightarrow> Migrator \<Rightarrow> mcall list \<Rightarrow> err option \<times> mcall list" where
  "migrateUp eng m cs =
     (let a1 = ask eng PostgresWithInstance cs
      in case m_err (fst a1) of
           Some e \<Rightarrow> (Some e, snd a1)
         | None \<Rightarrow>
             (let a2 = ask eng (NewWithDatabaseInstance (path m) driverName) (snd a1)
              in case m_err (fst a2) of
                   Some e \<Rightarrow> (Some e, snd a2)
                 | None \<Rightarrow>
                     (let a3 = ask eng Version (snd a2);
                          beforeVersion = m_version (fst a3)
                      in if m_err (fst a3) \<noteq> None \<and> beforeVersion \<noteq> 0 then (m_err (fst a3), snd a3)
                         else
                           (let a4 = ask eng Up (snd a3)
                            in if m_err (fst a4) \<noteq> None \<and> m_err (fst a4) \<noteq> Some ErrNoChange
                               then (m_err (fst a4), snd a4)
                               else
                                 (let a5 = ask eng Version (snd a4)
                                  in if m_err (fst a5) \<noteq> None \<and> beforeVersion \<noteq> 0
                                     then (m_err (fst a5), snd a5)
                                     else (None, snd a5))))))"

text \<open>
  \<open>Run\<close>: \<open>sql.Open(driverName, m.dsn)\<close>, then the rest with \<open>defer db.Close()\<close>, which runs
  on every return after a successful open.
\<close>

definition Run :: "engine \<Rightarrow> Migrator \<Rightarrow> mcall list \<Rightarrow> err option \<times> mcall list" where
  "Run eng m cs =
     (let a0 = ask eng (SqlOpen driverName (dsn m)) cs
      in case m_err (fst a0) of
           Some e \<Rightarrow> (Some e, snd a0)
         | None \<Rightarrow>
             (let cleaned = (if length (cleanScheme m) > 0
                             then cleanAll eng (cleanScheme m) (snd a0)
                             else (None, snd a0))
              in case fst cleaned of
                   Some e \<Rightarrow> (Some e, snd (ask eng DbClose (snd cleaned)))
                 | None \<Rightarrow>
                     (fst (migrateUp eng m (snd cleaned)),
                      snd (ask eng DbClose (snd (migrateUp eng m (snd cleaned)))))))"

section \<open>What the claims speak of\<close>

text \<open>
  The client's active transaction is the one stored in \<open>w.tx\<close>; a pass-through sends one
  request to the transaction if one is active and to the connection otherwise, and
  changes nothing but the list of calls.
\<close>

definition receiver :: "world \<Rightarrow> target" where
  "receiver s = (case tx (client s) of Some t \<Rightarrow> OnTx t | None \<Rightarrow> OnConn (conn (client s)))"






text \<open>
  For \<open>UpdateWhere\<close>: whether a value is a string, the field/value pairs of an argument
  list, and the \<open>SET\<close> clause recorded for a pair.
\<close>

fun isStr :: "gvalue \<Rightarrow> bool" where
  "isStr (VStr x) = True"
| "isStr _ = False"

fun pairsOf :: "gvalue list \<Rightarrow> (string \<times> gvalue) list" where
  "pairsOf (VStr f # v # rest) = (f, v) # pairsOf rest"
| "pairsOf _ = []"

fun fieldsAreStrings :: "gvalue list \<Rightarrow> bool" where
  "fieldsAreStrings [] = True"
| "fieldsAreStrings [x] = isStr x"
| "fieldsAreStrings (x # v # rest) = (isStr x \<and> fieldsAreStrings rest)"

definition setClause :: "string \<times> gvalue \<Rightarrow> string \<times> gvalue list" where
  "setClause p = (fst p @ '' = ?'', [snd p])"




text \<open>For \<open>NewMigrator\<close>: a string with one leading character \<open>ch\<close> removed, if it has one.\<close>

fun stripLeading :: "char \<Rightarrow> string \<Rightarrow> string" where
  "stripLeading ch [] = []"
| "stripLeading ch (x # xs) = (if x = ch then xs else x # xs)"

section \<open>Sample inputs\<close>

text \<open>A driver for which every call succeeds, with one row affected; \<open>Begin\<close> gives transaction 7.\<close>

definition okReply :: reply where
  "okReply = \<lparr> r_err = None, r_res = Some \<lparr> rowsAffected = 1, rowsReturned = 1 \<rparr>, r_tx = 7,
               r_count = 1, r_bytes = [], r_fmt = 0, r_ctx = Background, r_query = 0 \<rparr>"

definition okDriver :: driver where
  "okDriver cs tgt rq = okReply"

text \<open>A driver that answers every call with an error.\<close>

definition failDriver :: driver where
  "failDriver cs tgt rq = okReply\<lparr> r_err := Some (Raw ''connection refused''), r_res := None \<rparr>"

text \<open>A driver whose results carry the row count \<open>n\<close>.\<close>

definition countDriver :: "int \<Rightarrow> driver" where
  "countDriver n cs tgt rq = okReply\<lparr> r_res := Some \<lparr> rowsAffected = n, rowsReturned = 0 \<rparr> \<rparr>"

text \<open>A fresh client on connection 1, and the same client with a hook that never calls the processor.\<close>

definition world0 :: world where
  "world0 = \<lparr> client = NewDbClient 1 [], calls = [], ctxErr = None \<rparr>"



text \<open>A conversion of driver errors in the manner of \<open>pkgerr.Convert\<close>, for the samples.\<close>

definition sampleConvert :: converter where
  "sampleConvert c e = (case e of App k x \<Rightarrow> App k x | _ \<Rightarrow> App Internal e)"

text \<open>
  A record to insert, and two callbacks for \<open>WithTX\<close>: \<open>insertInTx\<close> inserts it with the
  context \<open>WithTX\<close> hands it, \<open>insertWith outer\<close> inserts it with a context \<open>outer\<close> of
  its own choosing.
\<close>

definition agent1 :: gvalue where
  "agent1 = VModel (RPtr (Some [(''ID'', ''111''), (''Name'', ''test-tx'')]))"

definition insertInTx :: "context \<Rightarrow> world \<Rightarrow> err option \<times> world" where
  "insertInTx c s = dao_Insert okDriver sampleConvert c [agent1] s"

definition insertWith :: "context \<Rightarrow> context \<Rightarrow> world \<Rightarrow> err option \<times> world" where
  "insertWith outer c s = dao_Insert okDriver sampleConvert outer [agent1] s"

text \<open>The state after \<open>StartTx\<close> on the fresh client bound to the background context.\<close>

definition startedWorld :: world where
  "startedWorld = \<lparr> client = \<lparr> ctx = Some Background, conn = 1, tx = Some 7, wrappedProcessor = None \<rparr>,
                    calls = [(OnConn 1, Begin)], ctxErr = None \<rparr>"

text \<open>
  The table of a record type with the columns id and name, and a slice in which the
  first and the third record have the same id.
\<close>

definition agentTable :: table where
  "agentTable = [(''id'', ''ID''), (''name'', ''Name'')]"

definition doubles :: "elem list" where
  "doubles = [EStruct [(''ID'', ''111''), (''Name'', ''test11'')],
              EStruct [(''ID'', ''222''), (''Name'', ''test21'')],
              EStruct [(''ID'', ''111''), (''Name'', ''test12'')]]"

text \<open>A migration engine for which every call succeeds.\<close>

definition okEngine :: engine where
  "okEngine cs c = \<lparr> m_err = None, m_version = 1, m_dirty = False \<rparr>"

section \<open>Properties\<close>

subsection \<open>Field setters (C10)\<close>

text \<open>
  C10. \<open>SetUpdatedField\<close> and \<open>SetDeletedField\<close> with the empty string return the DAO as
  it was; \<open>New\<close> sets the names to "updated" and "deleted"; a non-empty argument replaces
  the field the setter is for; in both cases the other field name and the client
  reference stay as they were.
\<close>

theorem C10_field_setters:
  "SetUpdatedField '''' r = r
   \<and> SetDeletedField '''' r = r
   \<and> updatedField (New d) = ''updated''
   \<and> deletedField (New d) = ''deleted''
   \<and> db (New d) = d
   \<and> (f \<noteq> '''' \<longrightarrow> updatedField (SetUpdatedField f r) = f)
   \<and> (f \<noteq> '''' \<longrightarrow> deletedField (SetDeletedField f r) = f)
   \<and> deletedField (SetUpdatedField f r) = deletedField r
   \<and> db (SetUpdatedField f r) = db r
   \<and> updatedField (SetDeletedField f r) = updatedField r
   \<and> db (SetDeletedField f r) = db r"
  by (simp add: SetUpdatedField_def SetDeletedField_def New_def)

theorem C10_field_setters_witness:
  "SetUpdatedField '''' (New 1) = New 1
   \<and> SetDeletedField '''' (New 1) = New 1
   \<and> ''updated_at'' \<noteq> ''''
   \<and> updatedField (SetUpdatedField ''updated_at'' (New 1)) = ''updated_at''
   \<and> deletedField (SetDeletedField ''updated_at'' (New 1)) = ''updated_at''
   \<and> deletedField (SetUpdatedField ''updated_at'' (New 1)) = ''deleted''
   \<and> updatedField (SetDeletedField ''updated_at'' (New 1)) = ''updated''"
  using C10_field_setters [of "New 1" 1 "''updated_at''"]
  by (simp add: New_def)

subsection \<open>The transaction in the context (C5)\<close>

text \<open>
  C5. Storing a transaction in the request context and reading it back gives the same
  transaction: \<open>getTxFromContext (newTxContext ctx tx) = tx\<close>, a client after
  \<open>WithContext (newTxContext ctx tx)\<close> has exactly \<open>tx\<close> as its active transaction, and
  \<open>WithContext\<close> on a context with no value under \<open>TxKey\<close> leaves the active transaction
  nil.
\<close>

theorem C5_tx_context_roundtrip:
  "getTxFromContext (newTxContext c t) = t
   \<and> tx (client (WithContext (newTxContext c t) s)) = t
   \<and> (Value c TxKey = None \<longrightarrow> tx (client (WithContext c s)) = None)"
  by (simp add: getTxFromContext_def newTxContext_def WithContext_def)

theorem C5_tx_context_roundtrip_witness:
  "Value Background TxKey = None
   \<and> getTxFromContext (newTxContext Background (Some 7)) = Some 7
   \<and> tx (client (WithContext (newTxContext Background (Some 7)) world0)) = Some 7
   \<and> tx (client (WithContext Background (WithContext (newTxContext Background (Some 7)) world0))) = None"
  using C5_tx_context_roundtrip [of Background "Some 7" world0]
    C5_tx_context_roundtrip [of Background "Some 7" "WithContext (newTxContext Background (Some 7)) world0"]
  by simp

subsection \<open>The client's methods as pass-throughs (C6)\<close>










subsection \<open>One row (C8)\<close>

text \<open>
  C8, as the code has it. When the underlying \<open>Exec\<close> or \<open>Query\<close> succeeds, \<open>ExecOne\<close> and
  \<open>QueryOne\<close> return \<open>pg.ErrNoRows\<close> if the affected-row count is 0 and \<open>pg.ErrMultiRows\<close>
  if it is greater than 1; they return the result with a nil error exactly when the
  count is 1 or negative.
\<close>

theorem C8_one_row:
  assumes "fst (Exec drv qry params s) = (Some res, None)"
      and "fst (Query drv' model qry' params' s') = (Some res', None)"
  shows "(rowsAffected res = 0 \<longrightarrow> fst (ExecOne drv qry params s) = Returns (None, Some ErrNoRows))
       \<and> (rowsAffected res > 1 \<longrightarrow> fst (ExecOne drv qry params s) = Returns (None, Some ErrMultiRows))
       \<and> ((fst (ExecOne drv qry params s) = Returns (Some res, None))
            = (rowsAffected res = 1 \<or> rowsAffected res < 0))
       \<and> snd (ExecOne drv qry params s) = snd (Exec drv qry params s)
       \<and> (rowsAffected res' = 0 \<longrightarrow>
            fst (QueryOne drv' model qry' params' s') = Returns (None, Some ErrNoRows))
       \<and> (rowsAffected res' > 1 \<longrightarrow>
            fst (QueryOne drv' model qry' params' s') = Returns (None, Some ErrMultiRows))
       \<and> ((fst (QueryOne drv' model qry' params' s') = Returns (Some res', None))
            = (rowsAffected res' = 1 \<or> rowsAffected res' < 0))
       \<and> snd (QueryOne drv' model qry' params' s') = snd (Query drv' model qry' params' s')"
  using assms
  by (auto simp: ExecOne_def QueryOne_def assertOneRow_def Let_def prod_eq_iff)

lemma Exec_countDriver:
  "fst (Exec (countDriver n) q ps world0) = (Some \<lparr> rowsAffected = n, rowsReturned = 0 \<rparr>, None)"
  by (simp add: Exec_def world0_def NewDbClient_def countDriver_def okReply_def issue_def
      ret_def res_err_def)

lemma Query_countDriver:
  "fst (Query (countDriver n) m q ps world0) = (Some \<lparr> rowsAffected = n, rowsReturned = 0 \<rparr>, None)"
  by (simp add: Query_def world0_def NewDbClient_def countDriver_def okReply_def issue_def
      ret_def res_err_def)

theorem C8_one_row_witness:
  "fst (Exec (countDriver 0) (VStr ''DELETE FROM agent'') [] world0)
     = (Some \<lparr> rowsAffected = 0, rowsReturned = 0 \<rparr>, None)
   \<and> fst (Query (countDriver 2) VNil (VStr ''SELECT 1'') [] world0)
     = (Some \<lparr> rowsAffected = 2, rowsReturned = 0 \<rparr>, None)
   \<and> fst (ExecOne (countDriver 0) (VStr ''DELETE FROM agent'') [] world0)
     = Returns (None, Some ErrNoRows)
   \<and> fst (QueryOne (countDriver 2) VNil (VStr ''SELECT 1'') [] world0)
     = Returns (None, Some ErrMultiRows)"
proof -
  have e: "fst (Exec (countDriver 0) (VStr ''DELETE FROM agent'') [] world0)
     = (Some \<lparr> rowsAffected = 0, rowsReturned = 0 \<rparr>, None)"
    by (rule Exec_countDriver)
  have q: "fst (Query (countDriver 2) VNil (VStr ''SELECT 1'') [] world0)
     = (Some \<lparr> rowsAffected = 2, rowsReturned = 0 \<rparr>, None)"
    by (rule Query_countDriver)
  show ?thesis
    using C8_one_row [OF e q] e q by simp
qed

text \<open>
  C8 as stated fails at a negative count: the driver reports -1 for a command without a
  row count, \<open>Exec\<close> succeeds, and \<open>ExecOne\<close> returns the result with a nil error although
  the count is not 1.
\<close>

theorem C8_negative_count_counterexample:
  "fst (Exec (countDriver (- 1)) (VStr ''set timezone=UTC'') [] world0)
     = (Some \<lparr> rowsAffected = - 1, rowsReturned = 0 \<rparr>, None)
   \<and> fst (ExecOne (countDriver (- 1)) (VStr ''set timezone=UTC'') [] world0)
     = Returns (Some \<lparr> rowsAffected = - 1, rowsReturned = 0 \<rparr>, None)
   \<and> rowsAffected \<lparr> rowsAffected = - 1, rowsReturned = 0 \<rparr> \<noteq> 1"
  by (simp add: ExecOne_def Exec_def world0_def NewDbClient_def countDriver_def okReply_def
      issue_def ret_def res_err_def assertOneRow_def)

subsection \<open>One active transaction (C4)\<close>










subsection \<open>Commit or rollback in WithTX (C2)\<close>

text \<open>
  C2, as the code has it. For every call to \<open>WithTX\<close> that starts a new transaction (none
  active on the client, \<open>StartTx\<close> succeeds) and whose function leaves that transaction as
  the client's active one when it returns: the transaction is committed if and only if
  the function returns nil and the context is not cancelled; if the function returns
  an error or the context is cancelled, the transaction is rolled back; when the
  context is cancelled its error is returned, otherwise the function's error.
\<close>

theorem C2_withTX:
  assumes idle: "Tx s = None"
      and begun: "StartTx drv (WithContext c s) = ((Some t, None), s1)"
      and ran: "fn (newTxContext c (Some t)) s1 = (ferr, s2)"
      and kept: "tx (client s2) = Some t"
  shows "(calls (snd (WithTX drv conv c fn s)) = calls s2 @ [(OnTx t, CommitTx)])
            = (ferr = None \<and> ctxErr s2 = None)
       \<and> (ferr \<noteq> None \<or> ctxErr s2 \<noteq> None \<longrightarrow>
            calls (snd (WithTX drv conv c fn s)) = calls s2 @ [(OnTx t, RollbackTx)])
       \<and> (ctxErr s2 \<noteq> None \<longrightarrow> fst (WithTX drv conv c fn s) = Returns (ctxErr s2))
       \<and> (ctxErr s2 = None \<and> ferr \<noteq> None \<longrightarrow> fst (WithTX drv conv c fn s) = Returns ferr)
       \<and> tx (client (snd (WithTX drv conv c fn s))) = None"
  using assms
  by (auto simp: WithTX_def Let_def Commit_def Rollback_def call_def issue_def
      split: option.splits outcome.splits)

lemma started_sample:
  "StartTx okDriver (WithContext Background world0) = ((Some 7, None), startedWorld)"
  by (simp add: StartTx_def WithContext_def world0_def NewDbClient_def okDriver_def okReply_def
      call_def issue_def getTxFromContext_def startedWorld_def)

lemma inserted_sample:
  "insertInTx (newTxContext Background (Some 7)) startedWorld
     = (None, startedWorld\<lparr> client := (client startedWorld)\<lparr> ctx := Some (newTxContext Background (Some 7)) \<rparr>,
                calls := [(OnConn 1, Begin), (OnTx 7, OrmInsert (NewQuery [agent1]))] \<rparr>)"
  by (simp add: insertInTx_def dao_Insert_def converted_def Insert_def WithContext_def
      getTxFromContext_def newTxContext_def startedWorld_def okDriver_def okReply_def
      call_def issue_def ret_def)

theorem C2_withTX_witness:
  "Tx world0 = None
   \<and> StartTx okDriver (WithContext Background world0) = ((Some 7, None), startedWorld)
   \<and> fst (insertInTx (newTxContext Background (Some 7)) startedWorld) = None
   \<and> tx (client (snd (insertInTx (newTxContext Background (Some 7)) startedWorld))) = Some 7
   \<and> calls (snd (WithTX okDriver sampleConvert Background insertInTx world0))
       = [(OnConn 1, Begin), (OnTx 7, OrmInsert (NewQuery [agent1])), (OnTx 7, CommitTx)]"
proof -
  have idle: "Tx world0 = None"
    by (simp add: Tx_def world0_def NewDbClient_def)
  have kept: "tx (client (startedWorld\<lparr> client := (client startedWorld)\<lparr> ctx := Some (newTxContext Background (Some 7)) \<rparr>,
                calls := [(OnConn 1, Begin), (OnTx 7, OrmInsert (NewQuery [agent1]))] \<rparr>)) = Some 7"
    by (simp add: startedWorld_def)
  show ?thesis
    using C2_withTX [where s = world0 and drv = okDriver and c = Background and t = 7
        and ?s1.0 = startedWorld and fn = insertInTx and conv = sampleConvert,
        OF idle started_sample inserted_sample kept] idle started_sample inserted_sample
    by (simp add: startedWorld_def)
qed

text \<open>
  C2 as stated fails when the function rebinds the shared client: a callback that
  inserts with the background context instead of the one it is handed makes
  \<open>WithContext\<close> reset \<open>w.tx\<close> to nil. The function returns nil and the context is not
  cancelled, yet the transaction 7 that \<open>WithTX\<close> started is neither committed nor rolled
  back: the insert goes to the connection and \<open>Commit\<close> panics on the nil \<open>w.tx\<close>.
\<close>

theorem C2_rebound_client_counterexample:
  "Tx world0 = None
   \<and> fst (StartTx okDriver (WithContext Background world0)) = (Some 7, None)
   \<and> fst (insertWith Background (newTxContext Background (Some 7)) startedWorld) = None
   \<and> ctxErr (snd (insertWith Background (newTxContext Background (Some 7)) startedWorld)) = None
   \<and> WithTX okDriver sampleConvert Background (insertWith Background) world0
       = (Panics ''nil pointer dereference'',
          \<lparr> client = \<lparr> ctx = Some Background, conn = 1, tx = None, wrappedProcessor = None \<rparr>,
            calls = [(OnConn 1, Begin), (OnConn 1, OrmInsert (NewQuery [agent1]))],
            ctxErr = None \<rparr>)"
  by (simp add: WithTX_def Tx_def StartTx_def WithContext_def world0_def NewDbClient_def okDriver_def
      okReply_def call_def issue_def getTxFromContext_def startedWorld_def insertWith_def
      dao_Insert_def converted_def Insert_def ret_def Commit_def Let_def newTxContext_def)


subsection \<open>Field/value pairs of UpdateWhere (C9)\<close>

lemma fieldsAreStrings_index:
  "fieldsAreStrings ps = (\<forall>i<length ps. even i \<longrightarrow> isStr (ps ! i))"
proof (induction ps rule: fieldsAreStrings.induct)
  case 1
  then show ?case by simp
next
  case (2 x)
  then show ?case by auto
next
  case (3 x v rest)
  show ?case
  proof
    assume a: "fieldsAreStrings (x # v # rest)"
    show "\<forall>i<length (x # v # rest). even i \<longrightarrow> isStr ((x # v # rest) ! i)"
    proof (intro allI impI)
      fix i assume i: "i < length (x # v # rest)" "even i"
      show "isStr ((x # v # rest) ! i)"
      proof (cases i)
        case 0
        then show ?thesis using a by simp
      next
        case (Suc j)
        then obtain k where k: "j = Suc k" using i by (cases j) auto
        with Suc i have "k < length rest" "even k" by auto
        with a 3 have "isStr (rest ! k)" by simp
        then show ?thesis using Suc k by simp
      qed
    qed
  next
    assume a: "\<forall>i<length (x # v # rest). even i \<longrightarrow> isStr ((x # v # rest) ! i)"
    have "isStr x" using a by auto
    moreover have "\<forall>i<length rest. even i \<longrightarrow> isStr (rest ! i)"
    proof (intro allI impI)
      fix i assume "i < length rest" "even i"
      then have "Suc (Suc i) < length (x # v # rest)" "even (Suc (Suc i))" by auto
      with a have "isStr ((x # v # rest) ! Suc (Suc i))" by blast
      then show "isStr (rest ! i)" by simp
    qed
    ultimately show "fieldsAreStrings (x # v # rest)" using 3 by simp
  qed
qed

lemma setPairs_append:
  "even (length ps) \<Longrightarrow>
     setPairs (ps @ ys) q =
       (case setPairs ps q of
          Returns (Inr q2) \<Rightarrow> setPairs ys q2
        | Returns (Inl e) \<Rightarrow> Returns (Inl e)
        | Panics m \<Rightarrow> Panics m)"
proof (induction ps q rule: setPairs.induct)
  case (1 q)
  then show ?case by simp
next
  case (2 x q)
  then show ?case by simp
next
  case (3 x v rest q)
  then show ?case by (cases x) auto
qed

lemma setPairs_ok:
  "even (length ps) \<Longrightarrow> fieldsAreStrings ps \<Longrightarrow>
     setPairs ps q = Returns (Inr (q\<lparr> q_set := q_set q @ map setClause (pairsOf ps) \<rparr>))"
proof (induction ps q rule: setPairs.induct)
  case (1 q)
  then show ?case by simp
next
  case (2 x q)
  then show ?case by simp
next
  case (3 x v rest q)
  then show ?case by (cases x) (auto simp: setClause_def)
qed

lemma setPairs_bad:
  "even (length ps) \<Longrightarrow> \<not> fieldsAreStrings ps \<Longrightarrow>
     \<exists>e. setPairs ps q = Returns (Inl (App Internal e))"
proof (induction ps q rule: setPairs.induct)
  case (1 q)
  then show ?case by simp
next
  case (2 x q)
  then show ?case by simp
next
  case (3 x v rest q)
  then show ?case by (cases x) (auto simp: NewInternalError_def)
qed

lemma UpdateWhere_odd:
  "odd (length ps) \<Longrightarrow>
     \<exists>e. UpdateWhere drv conv now r c rec opts ps s = (Returns (Some (App Internal e)), s)"
  by (simp add: UpdateWhere_def NewInternalError_def)

lemma UpdateWhere_bad:
  assumes "even (length ps)" "\<not> fieldsAreStrings ps"
  shows "(\<exists>e. fst (UpdateWhere drv conv now r c rec opts ps s) = Returns (Some (App Internal e)))
         \<and> calls (snd (UpdateWhere drv conv now r c rec opts ps s)) = calls s"
proof -
  obtain e where e: "setPairs ps ((Model [rec] (WithContext c s))\<lparr> q_apply := [Apply opts] \<rparr>)
      = Returns (Inl (App Internal e))"
    using setPairs_bad [OF assms] by blast
  show ?thesis
    using assms(1) e
    by (simp add: UpdateWhere_def Let_def setPairs_append WithContext_def)
qed

lemma UpdateWhere_ok:
  assumes "even (length ps)" "fieldsAreStrings ps"
  shows "calls (snd (UpdateWhere drv conv now r c rec opts ps s))
     = calls s @ [(receiver (WithContext c s),
          OrmUpdate ((Model [rec] (WithContext c s))
            \<lparr> q_apply := [Apply opts],
              q_set := map setClause (pairsOf ps @ [(updatedField r, VTime now)]) \<rparr>))]"
  using assms
  by (simp add: UpdateWhere_def Let_def setPairs_append setPairs_ok converted_def ret_def
      runQuery_def call_def issue_def receiver_def WithContext_def Model_def NewQuery_def setClause_def
      split: option.splits)

text \<open>
  C9. If \<open>setFieldValuePairs\<close> has odd length, \<open>UpdateWhere\<close> returns an internal error and
  leaves the state as it was; if the length is even and an element at an even index is
  not a string, it returns an internal error and makes no driver call; otherwise it
  runs one update whose \<open>SET\<close> clauses are the given field/value pairs followed by the
  configured updated field with the current time.
\<close>

theorem C9_update_where:
  "(odd (length ps) \<longrightarrow>
      (\<exists>e. UpdateWhere drv conv now r c rec opts ps s = (Returns (Some (App Internal e)), s)))
   \<and> (even (length ps) \<and> (\<exists>i<length ps. even i \<and> \<not> isStr (ps ! i)) \<longrightarrow>
      (\<exists>e. fst (UpdateWhere drv conv now r c rec opts ps s) = Returns (Some (App Internal e)))
      \<and> calls (snd (UpdateWhere drv conv now r c rec opts ps s)) = calls s)
   \<and> (even (length ps) \<and> (\<forall>i<length ps. even i \<longrightarrow> isStr (ps ! i)) \<longrightarrow>
      calls (snd (UpdateWhere drv conv now r c rec opts ps s))
        = calls s @ [(receiver (WithContext c s),
            OrmUpdate ((Model [rec] (WithContext c s))
              \<lparr> q_apply := [Apply opts],
                q_set := map setClause (pairsOf ps @ [(updatedField r, VTime now)]) \<rparr>))])"
  using UpdateWhere_odd [of ps drv conv now r c rec opts s]
    UpdateWhere_bad [of ps drv conv now r c rec opts s]
    UpdateWhere_ok [of ps drv conv now r c rec opts s]
    fieldsAreStrings_index [of ps]
  by blast

theorem C9_update_where_witness:
  "odd (length [VStr ''inn''])
   \<and> UpdateWhere okDriver sampleConvert 5 (New 1) Background agent1 [] [VStr ''inn''] world0
       = (Returns (Some (App Internal
            (Errorf ''UpdateWhere: setFieldValuePairs must be even, got %d'' [VInt 1]))), world0)
   \<and> even (length [VInt 3, VStr ''222'']) \<and> \<not> isStr ([VInt 3, VStr ''222''] ! 0)
   \<and> calls (snd (UpdateWhere okDriver sampleConvert 5 (New 1) Background agent1 []
                    [VInt 3, VStr ''222''] world0)) = []
   \<and> even (length [VStr ''inn'', VStr ''222'']) \<and> isStr ([VStr ''inn'', VStr ''222''] ! 0)
   \<and> calls (snd (UpdateWhere okDriver sampleConvert 5 (New 1) Background agent1 []
                    [VStr ''inn'', VStr ''222''] world0))
       = [(OnConn 1, OrmUpdate
            \<lparr> q_model = [agent1], q_ctx = Some Background, q_apply = [Apply []], q_columns = [],
              q_wherePK = False,
              q_set = [(''inn = ?'', [VStr ''222'']), (''updated = ?'', [VTime 5])],
              q_onConflict = None, q_returning = [] \<rparr>)]"
proof -
  have strs: "\<forall>i<length [VStr ''inn'', VStr ''222'']. even i \<longrightarrow> isStr ([VStr ''inn'', VStr ''222''] ! i)"
    by (simp add: less_Suc_eq)
  have bad: "\<exists>i<length [VInt 3, VStr ''222'']. even i \<and> \<not> isStr ([VInt 3, VStr ''222''] ! i)"
    by (rule exI [of _ 0]) simp
  show ?thesis
    using C9_update_where [of "[VStr ''inn'']" okDriver sampleConvert 5 "New 1" Background agent1 "[]" world0]
      C9_update_where [of "[VInt 3, VStr ''222'']" okDriver sampleConvert 5 "New 1" Background agent1 "[]" world0]
      C9_update_where [of "[VStr ''inn'', VStr ''222'']" okDriver sampleConvert 5 "New 1" Background agent1 "[]" world0]
      strs bad
    by (simp add: UpdateWhere_def NewInternalError_def world0_def NewDbClient_def New_def
        WithContext_def getTxFromContext_def receiver_def Model_def NewQuery_def setClause_def)
qed


subsection \<open>De-duplication in Upsert (C1)\<close>























subsection \<open>The migration source (C7)\<close>

lemma TrimPrefix_single: "TrimPrefix str [ch] = stripLeading ch str"
  by (cases str) (simp_all add: TrimPrefix_def)

lemma NewMigrator_plain:
  "NewMigrator p d [] = \<lparr> path = ''file://'' @ stripLeading CHR ''/'' (stripLeading CHR ''.'' p),
                           dsn = d, cleanScheme = [], logger = 0 \<rparr>"
  by (simp add: NewMigrator_def TrimPrefix_single)

lemma fold_options:
  "\<forall>opt \<in> set options. (\<exists>sch. opt = WithClean sch) \<or> (\<exists>l. opt = WithLogger l) \<Longrightarrow>
     path (fold (\<lambda>opt m. opt m) options m0) = path m0 \<and> dsn (fold (\<lambda>opt m. opt m) options m0) = dsn m0"
proof (induction options arbitrary: m0)
  case Nil
  then show ?case by simp
next
  case (Cons opt options)
  then have "path (opt m0) = path m0 \<and> dsn (opt m0) = dsn m0"
    by (auto simp: WithClean_def WithLogger_def)
  with Cons show ?case by simp
qed

lemma cleanDatabase_calls:
  "\<exists>ys. snd (cleanDatabase eng sch cs) = cs @ ys \<and> (\<forall>y \<in> set ys. \<exists>q. y = DbQuery q)"
  by (auto simp: cleanDatabase_def ask_def Let_def split: option.splits)

lemma cleanAll_calls:
  "\<exists>ys. snd (cleanAll eng schs cs) = cs @ ys \<and> (\<forall>y \<in> set ys. \<exists>q. y = DbQuery q)"
proof (induction schs arbitrary: cs)
  case Nil
  then show ?case by simp
next
  case (Cons sch schs)
  obtain ys where ys: "snd (cleanDatabase eng sch cs) = cs @ ys" "\<forall>y \<in> set ys. \<exists>q. y = DbQuery q"
    using cleanDatabase_calls by blast
  show ?case
  proof (cases "fst (cleanDatabase eng sch cs)")
    case None
    obtain zs where zs: "snd (cleanAll eng schs (cs @ ys)) = (cs @ ys) @ zs"
        "\<forall>y \<in> set zs. \<exists>q. y = DbQuery q"
      using Cons.IH by blast
    from None ys zs show ?thesis by auto
  next
    case (Some e)
    with ys show ?thesis by auto
  qed
qed

lemma migrateUp_calls:
  "\<exists>ys. snd (migrateUp eng m cs) = cs @ ys
     \<and> set ys \<subseteq> {PostgresWithInstance, NewWithDatabaseInstance (path m) driverName, Version, Up}"
  by (auto simp: migrateUp_def ask_def Let_def split: option.splits)

lemma Run_calls:
  "\<exists>ys. snd (Run eng m cs) = cs @ SqlOpen driverName (dsn m) # ys
     \<and> (\<forall>y \<in> set ys. (\<exists>q. y = DbQuery q)
           \<or> y \<in> {PostgresWithInstance, NewWithDatabaseInstance (path m) driverName, Version, Up, DbClose})"
proof (cases "m_err (eng cs (SqlOpen driverName (dsn m)))")
  case (Some e)
  then show ?thesis by (simp add: Run_def ask_def)
next
  case None
  let ?cs1 = "cs @ [SqlOpen driverName (dsn m)]"
  let ?cleaned = "if length (cleanScheme m) > 0 then cleanAll eng (cleanScheme m) ?cs1 else (None, ?cs1)"
  have "\<exists>ys. snd ?cleaned = ?cs1 @ ys \<and> (\<forall>y \<in> set ys. \<exists>q. y = DbQuery q)"
    using cleanAll_calls [of eng "cleanScheme m" ?cs1] by simp
  then obtain ys where ys: "snd ?cleaned = ?cs1 @ ys" "\<forall>y \<in> set ys. \<exists>q. y = DbQuery q"
    by blast
  have run: "Run eng m cs =
      (case fst ?cleaned of
         Some e \<Rightarrow> (Some e, snd ?cleaned @ [DbClose])
       | None \<Rightarrow> (fst (migrateUp eng m (snd ?cleaned)),
                   snd (migrateUp eng m (snd ?cleaned)) @ [DbClose]))"
    using None by (simp add: Run_def ask_def Let_def split: option.splits)
  show ?thesis
  proof (cases "fst ?cleaned")
    case (Some e)
    have "snd (Run eng m cs) = cs @ SqlOpen driverName (dsn m) # (ys @ [DbClose])"
      unfolding run Some using ys(1) by simp
    moreover have "\<forall>y \<in> set (ys @ [DbClose]). (\<exists>q. y = DbQuery q)
           \<or> y \<in> {PostgresWithInstance, NewWithDatabaseInstance (path m) driverName, Version, Up, DbClose}"
      using ys(2) by auto
    ultimately show ?thesis by blast
  next
    case None
    obtain zs where zs: "snd (migrateUp eng m (snd ?cleaned)) = snd ?cleaned @ zs"
        "set zs \<subseteq> {PostgresWithInstance, NewWithDatabaseInstance (path m) driverName, Version, Up}"
      using migrateUp_calls by blast
    have "snd (Run eng m cs) = cs @ SqlOpen driverName (dsn m) # (ys @ zs @ [DbClose])"
      unfolding run None using zs(1) ys(1) by simp
    moreover have "\<forall>y \<in> set (ys @ zs @ [DbClose]). (\<exists>q. y = DbQuery q)
           \<or> y \<in> {PostgresWithInstance, NewWithDatabaseInstance (path m) driverName, Version, Up, DbClose}"
      using ys(2) zs(2) by auto
    ultimately show ?thesis by blast
  qed
qed

lemma cleanAll_ok:
  "\<forall>cs c. m_err (eng cs c) = None \<Longrightarrow> fst (cleanAll eng schs cs) = None"
  by (induction schs arbitrary: cs) (simp_all add: cleanDatabase_def ask_def Let_def)

lemma migrateUp_ok:
  "\<forall>cs c. m_err (eng cs c) = None \<Longrightarrow>
     NewWithDatabaseInstance (path m) driverName \<in> set (snd (migrateUp eng m cs))"
  by (simp add: migrateUp_def ask_def Let_def)

lemma Run_ok:
  assumes "\<forall>cs c. m_err (eng cs c) = None"
  shows "NewWithDatabaseInstance (path m) driverName \<in> set (snd (Run eng m cs))"
  using assms cleanAll_ok [OF assms] migrateUp_ok [OF assms]
  by (simp add: Run_def ask_def Let_def)

text \<open>
  C7. \<open>NewMigrator p dsn\<close> sets the source to "file://" followed by \<open>p\<close> with one leading
  "." removed and then one leading "/" removed, and keeps the DSN; the options
  \<open>WithClean\<close> and \<open>WithLogger\<close> change neither. \<open>Run\<close> starts by opening the database
  with the DSN, every source it hands to the migration engine is that path, and it does
  hand it over when no call before fails.
\<close>

theorem C7_migrator:
  "path (NewMigrator p d []) = ''file://'' @ stripLeading CHR ''/'' (stripLeading CHR ''.'' p)
   \<and> dsn (NewMigrator p d []) = d
   \<and> ((\<forall>opt \<in> set options. (\<exists>sch. opt = WithClean sch) \<or> (\<exists>l. opt = WithLogger l)) \<longrightarrow>
        path (NewMigrator p d options) = path (NewMigrator p d [])
        \<and> dsn (NewMigrator p d options) = d)
   \<and> (\<exists>ys. snd (Run eng m []) = SqlOpen driverName (dsn m) # ys)
   \<and> (\<forall>a b. SqlOpen a b \<in> set (snd (Run eng m [])) \<longrightarrow> a = driverName \<and> b = dsn m)
   \<and> (\<forall>src name. NewWithDatabaseInstance src name \<in> set (snd (Run eng m [])) \<longrightarrow>
         src = path m \<and> name = driverName)
   \<and> ((\<forall>cs c. m_err (eng cs c) = None) \<longrightarrow>
         NewWithDatabaseInstance (path m) driverName \<in> set (snd (Run eng m [])))"
proof -
  obtain ys where ys: "snd (Run eng m []) = SqlOpen driverName (dsn m) # ys"
     "\<forall>y \<in> set ys. (\<exists>q. y = DbQuery q)
           \<or> y \<in> {PostgresWithInstance, NewWithDatabaseInstance (path m) driverName, Version, Up, DbClose}"
    using Run_calls [of eng m "[]"] by auto
  have a: "\<forall>a b. SqlOpen a b \<in> set (snd (Run eng m [])) \<longrightarrow> a = driverName \<and> b = dsn m"
    using ys by auto
  have b: "\<forall>src name. NewWithDatabaseInstance src name \<in> set (snd (Run eng m [])) \<longrightarrow>
         src = path m \<and> name = driverName"
    using ys by auto
  have c: "(\<forall>opt \<in> set options. (\<exists>sch. opt = WithClean sch) \<or> (\<exists>l. opt = WithLogger l)) \<longrightarrow>
        path (NewMigrator p d options) = path (NewMigrator p d [])
        \<and> dsn (NewMigrator p d options) = d"
    using fold_options [of options] by (simp add: NewMigrator_def)
  show ?thesis
    using NewMigrator_plain [of p d] a b c ys(1) Run_ok [of eng m "[]"] by simp
qed

theorem C7_migrator_witness:
  "(\<exists>sch. WithClean [''public''] = WithClean sch)
   \<and> (\<forall>cs c. m_err (okEngine cs c) = None)
   \<and> path (NewMigrator ''./test/migrations'' ''postgres://db'' [WithClean [''public'']])
       = ''file://test/migrations''
   \<and> NewWithDatabaseInstance ''file://test/migrations'' ''postgres''
       \<in> set (snd (Run okEngine
            (NewMigrator ''./test/migrations'' ''postgres://db'' [WithClean [''public'']]) []))"
proof -
  let ?m = "NewMigrator ''./test/migrations'' ''postgres://db'' [WithClean [''public'']]"
  have opts: "\<forall>opt \<in> set [WithClean [''public'']]. (\<exists>sch. opt = WithClean sch) \<or> (\<exists>l. opt = WithLogger l)"
    by (simp, blast)
  have ok: "\<forall>cs c. m_err (okEngine cs c) = None"
    by (simp add: okEngine_def)
  note t = C7_migrator [of "''./test/migrations''" "''postgres://db''" "[WithClean [''public'']]" okEngine ?m]
  have plain: "path (NewMigrator ''./test/migrations'' ''postgres://db'' []) = ''file://test/migrations''"
    by (simp add: NewMigrator_def TrimPrefix_def)
  from t opts have "path ?m = path (NewMigrator ''./test/migrations'' ''postgres://db'' [])"
    by blast
  from this plain have p: "path ?m = ''file://test/migrations''"
    by (rule trans)
  from t ok have "NewWithDatabaseInstance (path ?m) driverName \<in> set (snd (Run okEngine ?m []))"
    by blast
  then have r: "NewWithDatabaseInstance ''file://test/migrations'' ''postgres''
       \<in> set (snd (Run okEngine ?m []))"
    unfolding p driverName_def .
  have opt1: "\<exists>sch. WithClean [''public''] = WithClean sch"
    by blast
  from opt1 ok p r show ?thesis by blast
qed


subsection \<open>Conversion of driver errors (C3)\<close>

lemma converted_cases:
  "fst (converted conv c p) = None \<or> (\<exists>e. fst (converted conv c p) = Some (conv c e))"
  by (cases "fst p") (auto simp: converted_def)

text \<open>
  The operations next to \<open>Upsert\<close> hand every driver error to \<open>pkgerr.Convert\<close>: what they
  return is nil, a converted error or, for \<open>UpdateWhere\<close>, its own internal error.
\<close>

lemma sibling_operations_convert:
  "(fst (FindOne drv conv c rcv opts s) = None
      \<or> (\<exists>e. fst (FindOne drv conv c rcv opts s) = Some (conv c e)))
   \<and> (fst (FindList drv conv c rcv opts s) = None
      \<or> (\<exists>e. fst (FindList drv conv c rcv opts s) = Some (conv c e)))
   \<and> (snd (fst (FindListWithTotal drv conv c rcv opts s)) = None
      \<or> (\<exists>e. snd (fst (FindListWithTotal drv conv c rcv opts s)) = Some (conv c e)))
   \<and> (snd (fst (GetTotal drv conv c rcv opts s)) = None
      \<or> (\<exists>e. snd (fst (GetTotal drv conv c rcv opts s)) = Some (conv c e)))
   \<and> (fst (dao_Insert drv conv c models s) = None
      \<or> (\<exists>e. fst (dao_Insert drv conv c models s) = Some (conv c e)))
   \<and> (fst (HardDelete drv conv c rcv s) = None
      \<or> (\<exists>e. fst (HardDelete drv conv c rcv s) = Some (conv c e)))
   \<and> (fst (HardDeleteWhere drv conv c rcv opts s) = None
      \<or> (\<exists>e. fst (HardDeleteWhere drv conv c rcv opts s) = Some (conv c e)))
   \<and> ((\<exists>m. fst (dao_Update drv conv r c rec columns s) = Panics m)
      \<or> fst (dao_Update drv conv r c rec columns s) = Returns None
      \<or> (\<exists>e. fst (dao_Update drv conv r c rec columns s) = Returns (Some (conv c e))))
   \<and> ((\<exists>m. fst (SoftDelete drv conv now setDeleted r c rec s) = Panics m)
      \<or> fst (SoftDelete drv conv now setDeleted r c rec s) = Returns None
      \<or> (\<exists>e. fst (SoftDelete drv conv now setDeleted r c rec s) = Returns (Some (conv c e))))
   \<and> ((\<exists>m. fst (UpdateWhere drv conv now r c rcv opts ps s) = Panics m)
      \<or> fst (UpdateWhere drv conv now r c rcv opts ps s) = Returns None
      \<or> (\<exists>e. fst (UpdateWhere drv conv now r c rcv opts ps s) = Returns (Some (App Internal e)))
      \<or> (\<exists>e. fst (UpdateWhere drv conv now r c rcv opts ps s) = Returns (Some (conv c e))))"
proof (intro conjI)
  show "fst (FindOne drv conv c rcv opts s) = None
      \<or> (\<exists>e. fst (FindOne drv conv c rcv opts s) = Some (conv c e))"
    unfolding FindOne_def Let_def by (rule converted_cases)
  show "fst (FindList drv conv c rcv opts s) = None
      \<or> (\<exists>e. fst (FindList drv conv c rcv opts s) = Some (conv c e))"
    unfolding FindList_def Let_def by (rule converted_cases)
  show "snd (fst (FindListWithTotal drv conv c rcv opts s)) = None
      \<or> (\<exists>e. snd (fst (FindListWithTotal drv conv c rcv opts s)) = Some (conv c e))"
    by (auto simp: FindListWithTotal_def Let_def split: option.splits)
  show "snd (fst (GetTotal drv conv c rcv opts s)) = None
      \<or> (\<exists>e. snd (fst (GetTotal drv conv c rcv opts s)) = Some (conv c e))"
    by (auto simp: GetTotal_def Let_def split: option.splits)
  show "fst (dao_Insert drv conv c models s) = None
      \<or> (\<exists>e. fst (dao_Insert drv conv c models s) = Some (conv c e))"
    unfolding dao_Insert_def by (rule converted_cases)
  show "fst (HardDelete drv conv c rcv s) = None
      \<or> (\<exists>e. fst (HardDelete drv conv c rcv s) = Some (conv c e))"
    unfolding HardDelete_def by (rule converted_cases)
  show "fst (HardDeleteWhere drv conv c rcv opts s) = None
      \<or> (\<exists>e. fst (HardDeleteWhere drv conv c rcv opts s) = Some (conv c e))"
    unfolding HardDeleteWhere_def Let_def by (rule converted_cases)
  show u: "(\<exists>m. fst (dao_Update drv conv r c rec columns s) = Panics m)
      \<or> fst (dao_Update drv conv r c rec columns s) = Returns None
      \<or> (\<exists>e. fst (dao_Update drv conv r c rec columns s) = Returns (Some (conv c e)))"
    for rec columns
    using converted_cases [of conv c]
    by (cases rec) (simp_all add: dao_Update_def Let_def split: option.splits)
  show "(\<exists>m. fst (SoftDelete drv conv now setDeleted r c rec s) = Panics m)
      \<or> fst (SoftDelete drv conv now setDeleted r c rec s) = Returns None
      \<or> (\<exists>e. fst (SoftDelete drv conv now setDeleted r c rec s) = Returns (Some (conv c e)))"
    using u [of "setDeleted now rec" "[deletedField r]"]
    by (auto simp: SoftDelete_def converted_def)
  show "(\<exists>m. fst (UpdateWhere drv conv now r c rcv opts ps s) = Panics m)
      \<or> fst (UpdateWhere drv conv now r c rcv opts ps s) = Returns None
      \<or> (\<exists>e. fst (UpdateWhere drv conv now r c rcv opts ps s) = Returns (Some (App Internal e)))
      \<or> (\<exists>e. fst (UpdateWhere drv conv now r c rcv opts ps s) = Returns (Some (conv c e)))"
  proof (cases "odd (length ps)")
    case True
    then show ?thesis using UpdateWhere_odd [of ps drv conv now r c rcv opts s] by auto
  next
    case even: False
    show ?thesis
    proof (cases "fieldsAreStrings ps")
      case True
      with even show ?thesis
        using converted_cases [of conv c]
        by (simp add: UpdateWhere_def Let_def setPairs_append setPairs_ok) blast
    next
      case False
      with even show ?thesis
        using UpdateWhere_bad [of ps drv conv now r c rcv opts s] by auto
    qed
  qed
qed

text \<open>
  C3 at a failing input: the driver refuses the insert. \<open>Upsert\<close> returns the driver's
  error as it got it, where \<open>Insert\<close> of the DAO returns the converted one.
\<close>

theorem C3_upsert_returns_raw_error:
  "fst (Upsert failDriver (Some agentTable) rev Background (RSlice doubles) [''id''] [''name''] world0)
     = Returns (Some (Raw ''connection refused''))
   \<and> fst (dao_Insert failDriver sampleConvert Background [agent1] world0)
     = Some (App Internal (Raw ''connection refused''))"
  by (simp add: Upsert_def getType_def doubles_def GetTable_def agentTable_def GetUniqueModels_def
      modelKey_def SprintField_def AList.update.simps insertModels_def setExcluded_def
      WithContext_def world0_def NewDbClient_def getTxFromContext_def Model_def NewQuery_def
      runQuery_def call_def issue_def failDriver_def okReply_def Let_def
      dao_Insert_def converted_def Insert_def ret_def sampleConvert_def)


end
